theory Spec2Isabelle
  imports Main
begin

section \<open>Job records\<close>

text \<open>
  The job table of both schema generations: \<^verbatim>\<open>src/src/index.ts\<close> (counter column
  \<^verbatim>\<open>attempts\<close>) and the later engine (counter columns \<^verbatim>\<open>retryx\<close>, \<^verbatim>\<open>retries\<close>).
  The columns the two share form the base record; each generation extends it.

  Timestamps (\<^verbatim>\<open>DATETIME\<close> columns and JavaScript \<^verbatim>\<open>Date\<close> values) are integers on
  one millisecond axis, counted from the epoch, client and server both on UTC;
  durations (\<^verbatim>\<open>expirems\<close>, \<^verbatim>\<open>stallms\<close>) are integers in milliseconds; a nullable
  column is an \<open>option\<close>. What the declared column types do to a value on its way
  into the table is written out for \<^verbatim>\<open>INSERT\<close> below. The recovery scans compute on
  the millisecond axis: the deadline they write is exact up to the rounding of a
  \<^verbatim>\<open>DATETIME\<close> column, and their counter is taken below the limit of \<^verbatim>\<open>INT\<close>.
\<close>

datatype status = Ready | Processing | Done | Failed

text \<open>
  A JavaScript value as far as the payload column can tell values apart: \<^verbatim>\<open>null\<close>, a
  string, or anything else.
\<close>

datatype 'v jsval = JNull | JString string | JOther 'v

record 'd job =
  id' :: string
  workerid :: "string option"
  name :: "string option"
  created :: int
  expires :: "int option"
  expirems :: "int option"
  stalls :: "int option"
  stallms :: "int option"
  status :: status
  data :: 'd

record 'd job_attempts = "'d job" +
  attempts :: int

record 'd job_retries = "'d job" +
  retryx :: int
  retries :: int

text \<open>
  A row as the server stores it carries the payload as \<^verbatim>\<open>LONGTEXT NULL\<close>; a
  \<^verbatim>\<open>JobAttr\<close> in the client carries it as a JavaScript value.
\<close>

type_synonym 'z row = "(string option, 'z) job_scheme"
type_synonym ('v, 'z) job_attr = "('v jsval, 'z) job_scheme"

definition map_data :: "('a \<Rightarrow> 'b) \<Rightarrow> ('a, 'z) job_scheme \<Rightarrow> ('b, 'z) job_scheme" where
  "map_data f r =
     \<lparr>id' = id' r, workerid = workerid r, name = name r, created = created r,
      expires = expires r, expirems = expirems r, stalls = stalls r, stallms = stallms r,
      status = status r, data = f (data r), \<dots> = job.more r\<rparr>"


section \<open>The relational store\<close>

text \<open>
  The server is an external collaborator. Its answers are modelled for exactly the
  statements the engine sends. \<open>Rejected\<close> is a rejected promise of \<^verbatim>\<open>execute\<close> or
  \<^verbatim>\<open>query\<close>; \<open>Thrown\<close> is a \<^verbatim>\<open>new Error(message)\<close> of the engine itself.
\<close>

datatype sql_error =
    ER_PARSE_ERROR
  | ER_DUP_ENTRY
  | ER_DUP_KEYNAME
  | ER_SP_ALREADY_EXISTS
  | ER_NO_SUCH_TABLE
  | ER_DATA_TOO_LONG
  | ER_WARN_DATA_OUT_OF_RANGE
  | ER_TRUNCATED_WRONG_VALUE
  | ER_LOCK_WAIT_TIMEOUT
  | PROTOCOL_CONNECTION_LOST

datatype error = Rejected sql_error | Thrown string

text \<open>
  \<open>link\<close> schedules what happens to the coming round trips, one entry each:
  \<open>Some e\<close> makes the round trip fail with \<open>e\<close> before the statement has any effect,
  \<open>None\<close> (or an exhausted schedule) lets the statement run. \<open>clock\<close> is the server's
  \<^verbatim>\<open>NOW()\<close>. \<open>db\<close> is what the statements act on: the rows of the job table in the
  server's scan order, or the catalog during schema bootstrap.
\<close>

record 'c store =
  link :: "sql_error option list"
  clock :: int
  db :: 'c

definition reachable :: "'c store \<Rightarrow> bool" where
  "reachable st = (case link st of Some e # rest \<Rightarrow> False | _ \<Rightarrow> True)"

definition execute ::
  "('c \<Rightarrow> sql_error + 'a \<times> 'c) \<Rightarrow> 'c store \<Rightarrow> (error + 'a) \<times> 'c store" where
  "execute stmt st =
     (case link st of
        Some e # rest \<Rightarrow> (Inl (Rejected e), st\<lparr>link := rest\<rparr>)
      | _ \<Rightarrow>
        (case stmt (db st) of
           Inl e \<Rightarrow> (Inl (Rejected e), st\<lparr>link := tl (link st)\<rparr>)
         | Inr (res, d) \<Rightarrow> (Inr res, st\<lparr>link := tl (link st), db := d\<rparr>)))"

subsection \<open>Statements on the job table\<close>

text \<open>
  The columns as \<^verbatim>\<open>initSchema\<close> declares them:

  \<^verbatim>\<open>id CHAR(36) NOT NULL, workerid CHAR(36) NULL, name VARCHAR(100) NULL,\<close>
  \<^verbatim>\<open>created DATETIME NOT NULL, expires DATETIME NULL, expirems INT NULL,\<close>
  \<^verbatim>\<open>stalls DATETIME NULL, stallms INT NULL, status ENUM(...) NOT NULL,\<close>
  \<^verbatim>\<open>retryx INT NOT NULL, retries INT NOT NULL, data LONGTEXT NULL, PRIMARY KEY (id)\<close>

  A \<^verbatim>\<open>DATETIME\<close> column without fractional digits holds whole seconds between the
  years 1000 and 9999 and rounds what it is given to the nearest second; an \<^verbatim>\<open>INT\<close>
  column holds 32-bit signed integers; the text columns hold at most 36, 100 and
  4294967295 characters. The server runs in its default strict mode, in which a
  value outside a column's range or width makes the statement fail; the first
  offending column in the order of the table decides the error. Collations (case,
  trailing spaces) are not modelled: strings are stored and compared as they are.
\<close>

definition datetime :: "int \<Rightarrow> int" where
  "datetime t = ((t + 500) div 1000) * 1000"

definition datetime_column :: "int option \<Rightarrow> sql_error option" where
  "datetime_column v =
     (case v of
        None \<Rightarrow> None
      | Some t \<Rightarrow>
          if - 30610224000000 \<le> datetime t \<and> datetime t \<le> 253402300799000 then None
          else Some ER_TRUNCATED_WRONG_VALUE)"

definition int_column :: "int option \<Rightarrow> sql_error option" where
  "int_column v =
     (case v of
        None \<Rightarrow> None
      | Some n \<Rightarrow>
          if - 2147483648 \<le> n \<and> n \<le> 2147483647 then None
          else Some ER_WARN_DATA_OUT_OF_RANGE)"

definition text_column :: "nat \<Rightarrow> string option \<Rightarrow> sql_error option" where
  "text_column width v =
     (case v of
        None \<Rightarrow> None
      | Some s \<Rightarrow> if length s \<le> width then None else Some ER_DATA_TOO_LONG)"

fun first_error :: "sql_error option list \<Rightarrow> sql_error option" where
  "first_error [] = None"
| "first_error (None # rest) = first_error rest"
| "first_error (Some e # rest) = Some e"

definition column_error :: "string option job_retries \<Rightarrow> sql_error option" where
  "column_error r =
     first_error
       [text_column 36 (Some (id' r)), text_column 36 (workerid r), text_column 100 (name r),
        datetime_column (Some (created r)), datetime_column (expires r),
        int_column (expirems r), datetime_column (stalls r), int_column (stallms r),
        int_column (Some (retryx r)), int_column (Some (retries r)),
        text_column 4294967295 (data r)]"

text \<open>The row as the columns hold it: the three timestamps rounded.\<close>

definition stored :: "('d, 'z) job_scheme \<Rightarrow> ('d, 'z) job_scheme" where
  "stored r =
     r\<lparr>created := datetime (created r), expires := map_option datetime (expires r),
       stalls := map_option datetime (stalls r)\<rparr>"

definition whole_second :: "int option \<Rightarrow> bool" where
  "whole_second v = (case v of None \<Rightarrow> True | Some t \<Rightarrow> t mod 1000 = 0)"

text \<open>
  \<^verbatim>\<open>INSERT\<close>: the primary key on \<^verbatim>\<open>id\<close> refuses a second row with the same id.
  The result of a data-changing statement is its \<^verbatim>\<open>affectedRows\<close>; the client
  connects with the driver's default flags, under which an \<^verbatim>\<open>UPDATE\<close> counts the rows
  its \<^verbatim>\<open>WHERE\<close> clause matched.
\<close>

definition sql_insert ::
  "string option job_retries \<Rightarrow> string option job_retries list
     \<Rightarrow> sql_error + nat \<times> string option job_retries list" where
  "sql_insert r tbl =
     (case column_error r of
        Some e \<Rightarrow> Inl e
      | None \<Rightarrow>
          if list_ex (\<lambda>x. id' x = id' r) tbl then Inl ER_DUP_ENTRY
          else Inr (1, tbl @ [stored r]))"

definition sql_select ::
  "('z row \<Rightarrow> bool) \<Rightarrow> 'z row list \<Rightarrow> sql_error + 'z row list \<times> 'z row list" where
  "sql_select cond tbl = Inr (filter cond tbl, tbl)"

definition sql_update ::
  "('z row \<Rightarrow> bool) \<Rightarrow> ('z row \<Rightarrow> 'z row) \<Rightarrow> 'z row list \<Rightarrow> sql_error + nat \<times> 'z row list" where
  "sql_update cond change tbl =
     (let tbl' = map (\<lambda>r. if cond r then change r else r) tbl in
      if map id' tbl' = map id' tbl \<or> distinct (map id' tbl')
      then Inr (length (filter cond tbl), tbl')
      else Inl ER_DUP_ENTRY)"

definition sql_delete ::
  "('z row \<Rightarrow> bool) \<Rightarrow> 'z row list \<Rightarrow> sql_error + nat \<times> 'z row list" where
  "sql_delete cond tbl = Inr (length (filter cond tbl), filter (\<lambda>r. \<not> cond r) tbl)"

text \<open>
  A statement whose \<^verbatim>\<open>SET\<close> or \<^verbatim>\<open>WHERE\<close> keyword is followed by an empty clause does
  not parse; the server refuses it before looking at any row.
\<close>

definition prepared ::
  "string \<Rightarrow> ('c \<Rightarrow> sql_error + 'a \<times> 'c) \<Rightarrow> 'c \<Rightarrow> sql_error + 'a \<times> 'c" where
  "prepared clause stmt c = (if clause = [] then Inl ER_PARSE_ERROR else stmt c)"

text \<open>
  The stored procedure installed by \<^verbatim>\<open>initSchema\<close> and \<^verbatim>\<open>createTable\<close>, run here as
  one uninterrupted call:

  \<^verbatim>\<open>SET @j_id := NULL; SELECT id INTO @j_id FROM t WHERE status = 'ready' LIMIT 1;\<close>
  \<^verbatim>\<open>IF (@j_id IS NOT NULL) THEN UPDATE t SET status = 'processing' WHERE id = @j_id; END IF;\<close>
  \<^verbatim>\<open>SELECT * FROM t WHERE id = @j_id;\<close>

  \<^verbatim>\<open>LIMIT 1\<close> without an order takes the first ready row of the scan; with \<^verbatim>\<open>@j_id\<close>
  still \<^verbatim>\<open>NULL\<close> the last \<^verbatim>\<open>SELECT\<close> matches nothing.
\<close>

definition reserve_sproc :: "'z row list \<Rightarrow> sql_error + 'z row list \<times> 'z row list" where
  "reserve_sproc tbl =
     (case map_option id' (find (\<lambda>r. status r = Ready) tbl) of
        None \<Rightarrow> Inr ([], tbl)
      | Some j_id \<Rightarrow>
          (let tbl' = map (\<lambda>r. if id' r = j_id then r\<lparr>status := Processing\<rparr> else r) tbl
           in Inr (filter (\<lambda>r. id' r = j_id) tbl', tbl')))"


section \<open>The engine\<close>

subsection \<open>Payload codec\<close>

text \<open>
  \<^verbatim>\<open>Serializer.pack\<close> and \<^verbatim>\<open>Serializer.unpack\<close> come from another package; the
  engine's operations take them as parameters \<open>pack\<close> and \<open>unpack\<close>.
  \<^verbatim>\<open>fromMysql\<close> decodes the payload of a fetched row only when it is truthy: neither
  \<^verbatim>\<open>null\<close> nor the empty string.

  \<^verbatim>\<open>if (mobj.data) { mobj.data = Serializer.unpack(mobj.data); }  return mobj as T;\<close>
\<close>

definition fromMysql :: "(string \<Rightarrow> 'v jsval) \<Rightarrow> 'z row \<Rightarrow> ('v, 'z) job_attr" where
  "fromMysql unpack mobj =
     map_data (\<lambda>d. case d of
                      None \<Rightarrow> JNull
                    | Some s \<Rightarrow> if s \<noteq> [] then unpack s else JString s) mobj"

subsection \<open>Reservation\<close>

text \<open>
  \<^verbatim>\<open>reserve(wId)\<close> of the later engine and \<^verbatim>\<open>atomicFindReady(wId)\<close> of
  \<^verbatim>\<open>index.ts\<close> have the same body: the worker id is written to the log and nowhere
  else, the procedure is called without arguments, and the call takes the first row of
  the procedure's result set.

  \<^verbatim>\<open>this.log.debug(`atomic reserve job ${wId}`);\<close>
  \<^verbatim>\<open>row = first row of: await this.pool.query(`CALL ${this.sproc}()`);\<close>
  \<^verbatim>\<open>const result = row || null;  return result ? MysqlEngine.fromMysql(result) : null;\<close>
\<close>

definition reserve ::
  "(string \<Rightarrow> 'v jsval) \<Rightarrow> string \<Rightarrow> string option job_retries list store
     \<Rightarrow> (error + 'v jsval job_retries option) \<times> string option job_retries list store" where
  "reserve unpack wId st =
     (case execute reserve_sproc st of
        (Inl e, st') \<Rightarrow> (Inl e, st')
      | (Inr result, st') \<Rightarrow>
          (case result of
             [] \<Rightarrow> (Inr None, st')
           | row # others \<Rightarrow> (Inr (Some (fromMysql unpack row)), st')))"

definition atomicFindReady ::
  "(string \<Rightarrow> 'v jsval) \<Rightarrow> string \<Rightarrow> string option job_attempts list store
     \<Rightarrow> (error + 'v jsval job_attempts option) \<times> string option job_attempts list store" where
  "atomicFindReady unpack wId st =
     (case execute reserve_sproc st of
        (Inl e, st') \<Rightarrow> (Inl e, st')
      | (Inr result, st') \<Rightarrow>
          (case result of
             [] \<Rightarrow> (Inr None, st')
           | row # others \<Rightarrow> (Inr (Some (fromMysql unpack row)), st')))"

subsection \<open>Reservation, statement by statement\<close>

text \<open>
  Calls made at the same time run on connections of their own, each with its own
  \<^verbatim>\<open>@j_id\<close>, and the server runs their statements in some order. The body of the
  procedure is three statements between \<^verbatim>\<open>START TRANSACTION\<close> and \<^verbatim>\<open>COMMIT\<close>:
  the \<^verbatim>\<open>SELECT ... INTO @j_id\<close> (a plain read: it is not \<^verbatim>\<open>FOR UPDATE\<close> and takes
  no lock), the \<^verbatim>\<open>UPDATE\<close> guarded by \<^verbatim>\<open>@j_id IS NOT NULL\<close> (its \<^verbatim>\<open>WHERE\<close> names the
  id alone, not the status), and the \<^verbatim>\<open>SELECT *\<close> that is the call's result set.
  A session is the \<^verbatim>\<open>@j_id\<close> of a call and the result set sent to it.
\<close>

datatype sproc_statement = Select_into | Update_if | Select_row

record 'z session =
  at_j_id :: "string option"
  result_set :: "'z row list"

definition idle :: "'z session" where
  "idle = \<lparr>at_j_id = None, result_set = []\<rparr>"

fun sproc_step ::
  "sproc_statement \<Rightarrow> 'z row list \<times> 'z session \<Rightarrow> 'z row list \<times> 'z session" where
  "sproc_step Select_into (tbl, c) =
     (tbl, c\<lparr>at_j_id := map_option id' (find (\<lambda>r. status r = Ready) tbl)\<rparr>)"
| "sproc_step Update_if (tbl, c) =
     (case at_j_id c of
        None \<Rightarrow> (tbl, c)
      | Some i \<Rightarrow> (map (\<lambda>r. if id' r = i then r\<lparr>status := Processing\<rparr> else r) tbl, c))"
| "sproc_step Select_row (tbl, c) =
     (case at_j_id c of
        None \<Rightarrow> (tbl, c\<lparr>result_set := []\<rparr>)
      | Some i \<Rightarrow> (tbl, c\<lparr>result_set := filter (\<lambda>r. id' r = i) tbl\<rparr>))"

text \<open>
  A schedule names, step by step, which call runs its next statement; a step of a call
  that does not exist is skipped.
\<close>

fun run ::
  "(nat \<times> sproc_statement) list \<Rightarrow> 'z row list \<times> 'z session list
     \<Rightarrow> 'z row list \<times> 'z session list" where
  "run [] state = state"
| "run ((k, stmt) # rest) (tbl, calls) =
     (if k < length calls
      then run rest (fst (sproc_step stmt (tbl, calls ! k)),
                     calls[k := snd (sproc_step stmt (tbl, calls ! k))])
      else run rest (tbl, calls))"

text \<open>What \<^verbatim>\<open>reserve\<close> returns to the caller of a call that has its result set.\<close>

definition reserved ::
  "(string \<Rightarrow> 'v jsval) \<Rightarrow> 'z session \<Rightarrow> ('v, 'z) job_attr option" where
  "reserved unpack c =
     (case result_set c of
        [] \<Rightarrow> None
      | row # others \<Rightarrow> Some (fromMysql unpack row))"

subsection \<open>Partial job objects\<close>

text \<open>
  \<^verbatim>\<open>Partial<JobAttr>\<close>: every key is optional. A key of a nullable column may
  be present with the value \<^verbatim>\<open>null\<close> (\<open>Some None\<close>). The values are bound to the
  statement's placeholders as they are, the payload too: no codec is applied to it.
\<close>

record partial =
  p_id :: "string option"
  p_workerid :: "string option option"
  p_name :: "string option option"
  p_created :: "int option"
  p_expires :: "int option option"
  p_expirems :: "int option option"
  p_stalls :: "int option option"
  p_stallms :: "int option option"
  p_status :: "status option"
  p_retryx :: "int option"
  p_retries :: "int option"
  p_data :: "string option option"

definition no_keys :: partial where
  "no_keys =
     \<lparr>p_id = None, p_workerid = None, p_name = None, p_created = None, p_expires = None,
      p_expirems = None, p_stalls = None, p_stallms = None, p_status = None,
      p_retryx = None, p_retries = None, p_data = None\<rparr>"

definition key :: "string \<Rightarrow> 'a option \<Rightarrow> string list" where
  "key k v = (case v of None \<Rightarrow> [] | Some x \<Rightarrow> [k])"

text \<open>\<^verbatim>\<open>Object.keys\<close>; the order of the keys shows in the statement text only.\<close>

definition keys :: "partial \<Rightarrow> string list" where
  "keys q =
     key ''id'' (p_id q) @ key ''workerid'' (p_workerid q) @ key ''name'' (p_name q) @
     key ''created'' (p_created q) @ key ''expires'' (p_expires q) @
     key ''expirems'' (p_expirems q) @ key ''stalls'' (p_stalls q) @
     key ''stallms'' (p_stallms q) @ key ''status'' (p_status q) @
     key ''retryx'' (p_retryx q) @ key ''retries'' (p_retries q) @ key ''data'' (p_data q)"

fun join :: "string \<Rightarrow> string list \<Rightarrow> string" where
  "join sep [] = []"
| "join sep [x] = x"
| "join sep (x # y # ys) = x @ sep @ join sep (y # ys)"

definition where_clause :: "string list \<Rightarrow> string" where
  "where_clause ks = join '' AND '' (map (\<lambda>k. ''`'' @ k @ ''` = ?'') ks)"

definition set_clause :: "string list \<Rightarrow> string" where
  "set_clause ks = join '', '' (map (\<lambda>v. v @ '' = ?'') ks)"

text \<open>
  \<^verbatim>\<open>column = ?\<close> under the server's comparison: a \<^verbatim>\<open>NULL\<close> on either side never
  compares equal. An absent key puts no condition on the row.
\<close>

definition eq_col :: "'a \<Rightarrow> 'a option \<Rightarrow> bool" where
  "eq_col c q = (case q of None \<Rightarrow> True | Some v \<Rightarrow> c = v)"

definition eq_null_col :: "'a option \<Rightarrow> 'a option option \<Rightarrow> bool" where
  "eq_null_col c q =
     (case q of
        None \<Rightarrow> True
      | Some None \<Rightarrow> False
      | Some (Some v) \<Rightarrow> (case c of None \<Rightarrow> False | Some x \<Rightarrow> x = v))"

definition matches :: "partial \<Rightarrow> string option job_retries \<Rightarrow> bool" where
  "matches q r =
     (eq_col (id' r) (p_id q) \<and> eq_null_col (workerid r) (p_workerid q) \<and>
      eq_null_col (name r) (p_name q) \<and> eq_col (created r) (p_created q) \<and>
      eq_null_col (expires r) (p_expires q) \<and> eq_null_col (expirems r) (p_expirems q) \<and>
      eq_null_col (stalls r) (p_stalls q) \<and> eq_null_col (stallms r) (p_stallms q) \<and>
      eq_col (status r) (p_status q) \<and> eq_col (retryx r) (p_retryx q) \<and>
      eq_col (retries r) (p_retries q) \<and> eq_null_col (data r) (p_data q))"

definition assigned :: "'a \<Rightarrow> 'a option \<Rightarrow> 'a" where
  "assigned c v = (case v of None \<Rightarrow> c | Some x \<Rightarrow> x)"

definition assign :: "partial \<Rightarrow> string option job_retries \<Rightarrow> string option job_retries" where
  "assign vals r =
     \<lparr>id' = assigned (id' r) (p_id vals), workerid = assigned (workerid r) (p_workerid vals),
      name = assigned (name r) (p_name vals), created = assigned (created r) (p_created vals),
      expires = assigned (expires r) (p_expires vals),
      expirems = assigned (expirems r) (p_expirems vals),
      stalls = assigned (stalls r) (p_stalls vals),
      stallms = assigned (stallms r) (p_stallms vals),
      status = assigned (status r) (p_status vals), data = assigned (data r) (p_data vals),
      retryx = assigned (retryx r) (p_retryx vals),
      retries = assigned (retries r) (p_retries vals)\<rparr>"

subsection \<open>Job lifecycle operations\<close>

text \<open>
  \<^verbatim>\<open>add(job)\<close>: every entry of the job becomes a column of one \<^verbatim>\<open>INSERT\<close>, the value
  under the key \<^verbatim>\<open>data\<close> packed: \<^verbatim>\<open>vals.push((key === 'data') ? Serializer.pack(val) : val)\<close>.
  \<^verbatim>\<open>getById(id)\<close>: \<^verbatim>\<open>SELECT * FROM t WHERE id = ?\<close>, then
  \<^verbatim>\<open>result = rows[0] || null;  return result ? MysqlEngine.fromMysql(result) : null\<close>.
  \<^verbatim>\<open>get(query)\<close>: \<^verbatim>\<open>SELECT * FROM t WHERE ${where}\<close> with \<^verbatim>\<open>where\<close> built from the keys
  of the query, every row of the result passed through \<^verbatim>\<open>fromMysql\<close>.
\<close>

definition add ::
  "('v jsval \<Rightarrow> string) \<Rightarrow> 'v jsval job_retries \<Rightarrow> string option job_retries list store
     \<Rightarrow> (error + unit) \<times> string option job_retries list store" where
  "add pack job st =
     (case execute (sql_insert (map_data (\<lambda>val. Some (pack val)) job)) st of
        (Inl e, st') \<Rightarrow> (Inl e, st')
      | (Inr affected, st') \<Rightarrow> (Inr (), st'))"

definition getById ::
  "(string \<Rightarrow> 'v jsval) \<Rightarrow> string \<Rightarrow> string option job_retries list store
     \<Rightarrow> (error + 'v jsval job_retries option) \<times> string option job_retries list store" where
  "getById unpack i st =
     (case execute (sql_select (\<lambda>r. id' r = i)) st of
        (Inl e, st') \<Rightarrow> (Inl e, st')
      | (Inr result, st') \<Rightarrow>
          (case result of
             [] \<Rightarrow> (Inr None, st')
           | row # others \<Rightarrow> (Inr (Some (fromMysql unpack row)), st')))"

definition get ::
  "(string \<Rightarrow> 'v jsval) \<Rightarrow> partial \<Rightarrow> string option job_retries list store
     \<Rightarrow> (error + 'v jsval job_retries list) \<times> string option job_retries list store" where
  "get unpack query st =
     (case execute (prepared (where_clause (keys query)) (sql_select (matches query))) st of
        (Inl e, st') \<Rightarrow> (Inl e, st')
      | (Inr results, st') \<Rightarrow> (Inr (map (fromMysql unpack) results), st'))"

text \<open>
  \<^verbatim>\<open>updateById(id, values)\<close>: \<^verbatim>\<open>UPDATE t SET ${set} WHERE id = ?\<close> with \<^verbatim>\<open>set\<close> built
  from the keys of the values, then
  \<^verbatim>\<open>if (!rows || !rows.affectedRows) throw new Error(`updated ${rows.affectedRows || 0} jobs instead of 1`)\<close>.
  \<^verbatim>\<open>removeById(id)\<close>: \<^verbatim>\<open>DELETE FROM t WHERE id = ?\<close>, the same check with
  \<^verbatim>\<open>deleted\<close>, then \<^verbatim>\<open>return true\<close>. The check fires on zero affected rows only,
  so the message always reads 0.
\<close>

definition updateById ::
  "string \<Rightarrow> partial \<Rightarrow> string option job_retries list store
     \<Rightarrow> (error + unit) \<times> string option job_retries list store" where
  "updateById i vals st =
     (case execute (prepared (set_clause (keys vals))
                      (sql_update (\<lambda>r. id' r = i) (assign vals))) st of
        (Inl e, st') \<Rightarrow> (Inl e, st')
      | (Inr affectedRows, st') \<Rightarrow>
          if affectedRows = 0 then (Inl (Thrown ''updated 0 jobs instead of 1''), st')
          else (Inr (), st'))"

definition removeById ::
  "string \<Rightarrow> string option job_retries list store
     \<Rightarrow> (error + bool) \<times> string option job_retries list store" where
  "removeById i st =
     (case execute (sql_delete (\<lambda>r. id' r = i)) st of
        (Inl e, st') \<Rightarrow> (Inl e, st')
      | (Inr affectedRows, st') \<Rightarrow>
          if affectedRows = 0 then (Inl (Thrown ''deleted 0 jobs instead of 1''), st')
          else (Inr True, st'))"

text \<open>
  The bulk deletes: \<^verbatim>\<open>remove(query)\<close> sends \<^verbatim>\<open>DELETE FROM t WHERE ${where}\<close>,
  \<^verbatim>\<open>clear()\<close> sends \<^verbatim>\<open>DELETE FROM t\<close>, \<^verbatim>\<open>removeByStatus(status)\<close> of \<^verbatim>\<open>index.ts\<close>
  sends \<^verbatim>\<open>DELETE FROM t WHERE status = ?\<close>; each ends in
  \<^verbatim>\<open>return rows && rows.affectedRows || 0\<close>.
\<close>

definition remove ::
  "partial \<Rightarrow> string option job_retries list store
     \<Rightarrow> (error + nat) \<times> string option job_retries list store" where
  "remove query st =
     (case execute (prepared (where_clause (keys query)) (sql_delete (matches query))) st of
        (Inl e, st') \<Rightarrow> (Inl e, st')
      | (Inr affectedRows, st') \<Rightarrow> (Inr affectedRows, st'))"

definition clear ::
  "string option job_retries list store
     \<Rightarrow> (error + nat) \<times> string option job_retries list store" where
  "clear st =
     (case execute (sql_delete (\<lambda>r. True)) st of
        (Inl e, st') \<Rightarrow> (Inl e, st')
      | (Inr affectedRows, st') \<Rightarrow> (Inr affectedRows, st'))"

definition removeByStatus ::
  "status \<Rightarrow> string option job_attempts list store
     \<Rightarrow> (error + nat) \<times> string option job_attempts list store" where
  "removeByStatus s st =
     (case execute (sql_delete (\<lambda>r. status r = s)) st of
        (Inl e, st') \<Rightarrow> (Inl e, st')
      | (Inr affectedRows, st') \<Rightarrow> (Inr affectedRows, st'))"

subsection \<open>Recovery scans\<close>





subsection \<open>Schema bootstrap\<close>

text \<open>
  What the bootstrap statements act on: whether the job table exists, the names of its
  indexes, the names of the stored procedures. \<^verbatim>\<open>initSchema\<close> and \<^verbatim>\<open>createTable\<close>
  send, in this order: \<^verbatim>\<open>CREATE TABLE IF NOT EXISTS\<close> (with the primary key and the
  unique index \<^verbatim>\<open>id_UNIQUE\<close>); one \<^verbatim>\<open>ALTER TABLE ... ADD INDEX\<close> per secondary index,
  each inside its own \<^verbatim>\<open>try\<close>; \<^verbatim>\<open>DROP PROCEDURE IF EXISTS\<close>; \<^verbatim>\<open>CREATE PROCEDURE\<close>.
\<close>

record catalog =
  has_table :: bool
  indexes :: "string list"
  procedures :: "string list"

definition create_table_if_not_exists :: "catalog \<Rightarrow> sql_error + unit \<times> catalog" where
  "create_table_if_not_exists c =
     (if has_table c then Inr ((), c)
      else Inr ((), c\<lparr>has_table := True, indexes := [''PRIMARY'', ''id_UNIQUE'']\<rparr>))"

definition add_index :: "string \<Rightarrow> catalog \<Rightarrow> sql_error + unit \<times> catalog" where
  "add_index ix c =
     (if has_table c
      then (if ix \<in> set (indexes c) then Inl ER_DUP_KEYNAME
            else Inr ((), c\<lparr>indexes := indexes c @ [ix]\<rparr>))
      else Inl ER_NO_SUCH_TABLE)"

definition drop_procedure_if_exists :: "string \<Rightarrow> catalog \<Rightarrow> sql_error + unit \<times> catalog" where
  "drop_procedure_if_exists p c = Inr ((), c\<lparr>procedures := removeAll p (procedures c)\<rparr>)"

definition create_procedure :: "string \<Rightarrow> catalog \<Rightarrow> sql_error + unit \<times> catalog" where
  "create_procedure p c =
     (if p \<in> set (procedures c) then Inl ER_SP_ALREADY_EXISTS
      else Inr ((), c\<lparr>procedures := procedures c @ [p]\<rparr>))"

text \<open>
  The loop over the index statements: \<^verbatim>\<open>try { await execute(i) } catch (err) { }\<close>.
  Whatever the statement answers, the loop goes on from the store as the statement
  left it.
\<close>

fun add_indexes :: "string list \<Rightarrow> catalog store \<Rightarrow> catalog store" where
  "add_indexes [] st = st"
| "add_indexes (i # rest) st = add_indexes rest (snd (execute (add_index i) st))"

definition install ::
  "string list \<Rightarrow> string \<Rightarrow> catalog store \<Rightarrow> (error + unit) \<times> catalog store" where
  "install ixs sproc st =
     (case execute create_table_if_not_exists st of
        (Inl e, st1) \<Rightarrow> (Inl e, st1)
      | (Inr u, st1) \<Rightarrow>
          (case execute (drop_procedure_if_exists sproc) (add_indexes ixs st1) of
             (Inl e, st2) \<Rightarrow> (Inl e, st2)
           | (Inr u, st2) \<Rightarrow>
               (case execute (create_procedure sproc) st2 of
                  (Inl e, st3) \<Rightarrow> (Inl e, st3)
                | (Inr u, st3) \<Rightarrow> (Inr (), st3))))"

definition initSchema :: "catalog store \<Rightarrow> (error + unit) \<times> catalog store" where
  "initSchema st = install [''status''] ''reserve_sproc'' st"

definition createTable :: "catalog store \<Rightarrow> (error + unit) \<times> catalog store" where
  "createTable st = install [''status_expires'', ''status_stalls''] ''atomicFindReady'' st"


section \<open>Sample data\<close>

text \<open>
  A codec to run the operations with, for payloads that are \<^verbatim>\<open>null\<close>, a string or a
  natural number: \<^verbatim>\<open>null\<close> is stored as the text \<open>null\<close>, a string behind the tag
  \<open>s\<close>, the number \<open>n\<close> as \<open>n\<close> strokes. Unpacking undoes packing on every value.
\<close>

fun sample_pack :: "nat jsval \<Rightarrow> string" where
  "sample_pack JNull = ''null''"
| "sample_pack (JString s) = CHR ''s'' # s"
| "sample_pack (JOther n) = replicate n (CHR ''1'')"

definition sample_unpack :: "string \<Rightarrow> nat jsval" where
  "sample_unpack s =
     (if s = ''null'' then JNull
      else (case s of
              [] \<Rightarrow> JOther 0
            | c # t \<Rightarrow> if c = CHR ''s'' then JString t else JOther (length s)))"

text \<open>The job of the example scenario, as a stored row, alone in its table.\<close>

definition job_j1 :: "string option job_retries" where
  "job_j1 =
     \<lparr>id' = ''j1'', workerid = None, name = None, created = 0, expires = None,
      expirems = Some 5000, stalls = None, stallms = Some 60000, status = Ready,
      data = Some ''spayload'', retryx = 0, retries = 0\<rparr>"

definition store_j1 :: "string option job_retries list store" where
  "store_j1 = \<lparr>link = [], clock = 0, db = [job_j1]\<rparr>"

text \<open>
  A job created 100 milliseconds into a second, as the client holds it, and a partial
  object with one key.
\<close>

definition job_j2 :: "nat jsval job_retries" where
  "job_j2 =
     \<lparr>id' = ''j2'', workerid = None, name = Some ''resize'', created = 100, expires = None,
      expirems = Some 5000, stalls = None, stallms = Some 60000, status = Ready,
      data = JString ''payload'', retryx = 0, retries = 0\<rparr>"

definition only_status :: "status \<Rightarrow> partial" where
  "only_status s = no_keys\<lparr>p_status := Some s\<rparr>"

text \<open>
  Two calls whose statements the server runs in this order: both read the ready row,
  then the first call updates, reads its result and commits, then the second does.
  The second \<^verbatim>\<open>UPDATE\<close> starts after the first call is through, as the row lock of
  the first \<^verbatim>\<open>UPDATE\<close> demands.
\<close>

definition racing :: "(nat \<times> sproc_statement) list" where
  "racing =
     [(0, Select_into), (1, Select_into),
      (0, Update_if), (0, Select_row),
      (1, Update_if), (1, Select_row)]"

text \<open>A server on which nothing has been installed yet.\<close>

definition blank :: "sql_error option list \<Rightarrow> catalog store" where
  "blank schedule =
     \<lparr>link = schedule, clock = 0,
      db = \<lparr>has_table = False, indexes = [], procedures = []\<rparr>\<rparr>"

text \<open>
  Two jobs being processed at server time 10000: the lease of \<open>a1\<close> ran out at 9000,
  its stall deadline lies ahead; \<open>a2\<close> holds a lease until 70000 and stalled at 8000.
\<close>

definition job_a1 :: "string option job_attempts" where
  "job_a1 =
     \<lparr>id' = ''a1'', workerid = Some ''workerA'', name = None, created = 0,
      expires = Some 9000, expirems = Some 5000, stalls = Some 64000, stallms = Some 60000,
      status = Processing, data = Some ''spayload'', attempts = 0\<rparr>"

definition job_a2 :: "string option job_attempts" where
  "job_a2 =
     \<lparr>id' = ''a2'', workerid = Some ''workerB'', name = None, created = 0,
      expires = Some 70000, expirems = Some 80000, stalls = Some 8000, stallms = Some 2000,
      status = Processing, data = None, attempts = 2\<rparr>"

definition store_a :: "string option job_attempts list store" where
  "store_a = \<lparr>link = [], clock = 10000, db = [job_a1, job_a2]\<rparr>"


section \<open>The store, one round trip at a time\<close>

lemma execute_ok:
  "reachable st \<Longrightarrow> stmt (db st) = Inr (res, d)
     \<Longrightarrow> execute stmt st = (Inr res, st\<lparr>link := tl (link st), db := d\<rparr>)"
  by (simp add: execute_def reachable_def split: list.splits option.splits)

lemma execute_refused:
  "reachable st \<Longrightarrow> stmt (db st) = Inl e
     \<Longrightarrow> execute stmt st = (Inl (Rejected e), st\<lparr>link := tl (link st)\<rparr>)"
  by (simp add: execute_def reachable_def split: list.splits option.splits)

lemma execute_down:
  "link st = Some e # rest \<Longrightarrow> execute stmt st = (Inl (Rejected e), st\<lparr>link := rest\<rparr>)"
  by (simp add: execute_def)



section \<open>Reservation\<close>

lemma find_none:
  "\<not> list_ex P tbl \<Longrightarrow> find P tbl = None"
  by (simp add: find_None_iff list_ex_iff)

lemma find_some:
  "list_ex P tbl \<Longrightarrow> \<exists>r. find P tbl = Some r \<and> r \<in> set tbl \<and> P r"
  by (induction tbl) auto

lemma reserve_sproc_none:
  "\<not> list_ex (\<lambda>r. status r = Ready) tbl \<Longrightarrow> reserve_sproc tbl = Inr ([], tbl)"
  by (simp add: reserve_sproc_def find_none)

lemma filter_updated_row:
  "distinct (map id' tbl) \<Longrightarrow> r \<in> set tbl \<Longrightarrow> id' (f r) = id' r
     \<Longrightarrow> filter (\<lambda>x. id' x = id' r) (map (\<lambda>x. if id' x = id' r then f x else x) tbl) = [f r]"
proof (induction tbl)
  case Nil
  then show ?case by simp
next
  case (Cons a tbl)
  show ?case
  proof (cases "a = r")
    case True
    with Cons.prems have "id' r \<notin> set (map id' tbl)" by simp
    then have "\<forall>x\<in>set tbl. id' x \<noteq> id' r" by (metis image_eqI set_map)
    then have "filter (\<lambda>x. id' x = id' r) (map (\<lambda>x. if id' x = id' r then f x else x) tbl) = []"
      by (simp add: filter_empty_conv)
    with True Cons.prems show ?thesis by simp
  next
    case False
    with Cons.prems have "r \<in> set tbl" "id' a \<noteq> id' r" by auto
    with Cons show ?thesis by simp
  qed
qed

lemma fromMysql_columns:
  "id' (fromMysql unpack r) = id' r" "status (fromMysql unpack r) = status r"
  "workerid (fromMysql unpack r) = workerid r"
  by (simp_all add: fromMysql_def map_data_def)

text \<open>
  C2, as the code has it. On a reachable store whose ids are distinct (the primary key)
  and that holds a ready job, \<^verbatim>\<open>reserve(w)\<close> returns a job that was ready, now with
  status \<^verbatim>\<open>processing\<close>. Its \<^verbatim>\<open>workerid\<close> is the one stored in the row: the
  procedure takes no argument and writes the status column only, so the result does
  not depend on the worker id passed in.
\<close>

theorem reserve_returns_processing_job:
  assumes "reachable st" and "distinct (map id' (db st))"
    and "list_ex (\<lambda>r. status r = Ready) (db st)"
  shows "\<exists>r j st'. r \<in> set (db st) \<and> status r = Ready
           \<and> reserve unpack w st = (Inr (Some j), st')
           \<and> j = fromMysql unpack (r\<lparr>status := Processing\<rparr>)
           \<and> id' j = id' r \<and> status j = Processing \<and> workerid j = workerid r
           \<and> reserve unpack w' st = reserve unpack w st"
proof -
  from assms(3) obtain r where r: "find (\<lambda>r. status r = Ready) (db st) = Some r"
    "r \<in> set (db st)" "status r = Ready"
    using find_some by blast
  let ?tbl = "map (\<lambda>x. if id' x = id' r then x\<lparr>status := Processing\<rparr> else x) (db st)"
  have sel: "filter (\<lambda>x. id' x = id' r) ?tbl = [r\<lparr>status := Processing\<rparr>]"
    using filter_updated_row [OF assms(2) r(2), of "\<lambda>x. x\<lparr>status := Processing\<rparr>"] by simp
  have "reserve_sproc (db st) = Inr ([r\<lparr>status := Processing\<rparr>], ?tbl)"
    using r(1) sel by (simp add: reserve_sproc_def Let_def)
  then have "reserve unpack w st =
      (Inr (Some (fromMysql unpack (r\<lparr>status := Processing\<rparr>))),
       st\<lparr>link := tl (link st), db := ?tbl\<rparr>)"
    by (simp add: reserve_def execute_ok [OF assms(1)])
  with r(2,3) show ?thesis
    by (intro exI [of _ r]) (simp add: fromMysql_columns reserve_def)
qed

theorem reserve_returns_processing_job_witness:
  "\<exists>j st'. reserve sample_unpack ''workerA'' store_j1 = (Inr (Some j), st')
       \<and> id' j = ''j1'' \<and> status j = Processing \<and> workerid j = None"
  using reserve_returns_processing_job [of store_j1 sample_unpack "''workerA''" "''workerB''"]
  by (auto simp add: store_j1_def job_j1_def reachable_def)

text \<open>
  C2 as stated fails on the example scenario itself: \<^verbatim>\<open>reserve("workerA")\<close> on the
  store holding the ready job \<open>j1\<close> returns it with \<^verbatim>\<open>workerid\<close> still \<^verbatim>\<open>null\<close>.
\<close>

theorem reserve_leaves_workerid_null:
  "fst (reserve sample_unpack ''workerA'' store_j1) =
     Inr (Some \<lparr>id' = ''j1'', workerid = None, name = None, created = 0, expires = None,
                expirems = Some 5000, stalls = None, stallms = Some 60000,
                status = Processing, data = JString ''payload'', retryx = 0, retries = 0\<rparr>)
   \<and> \<not> (\<exists>j. fst (reserve sample_unpack ''workerA'' store_j1) = Inr (Some j)
              \<and> workerid j = Some ''workerA'')"
  by (simp add: reserve_def execute_def reserve_sproc_def store_j1_def job_j1_def
      fromMysql_def map_data_def Let_def sample_unpack_def)

text \<open>
  C5. With no ready row in a reachable store, \<^verbatim>\<open>reserve\<close> and \<^verbatim>\<open>atomicFindReady\<close>
  return \<^verbatim>\<open>null\<close> as a value, and the store is as before but for the round trip
  spent. A round trip the link fails is reported as an error instead, so the two
  outcomes differ.
\<close>

theorem reserve_without_ready_job:
  "(reachable st \<and> \<not> list_ex (\<lambda>r. status r = Ready) (db st)
      \<longrightarrow> reserve unpack w st = (Inr None, st\<lparr>link := tl (link st)\<rparr>))
   \<and> (reachable st1 \<and> \<not> list_ex (\<lambda>r. status r = Ready) (db st1)
      \<longrightarrow> atomicFindReady unpack1 w st1 = (Inr None, st1\<lparr>link := tl (link st1)\<rparr>))
   \<and> (link st2 = Some e # rest \<longrightarrow> fst (reserve unpack w st2) = Inl (Rejected e))
   \<and> (link st3 = Some e # rest \<longrightarrow> fst (atomicFindReady unpack1 w st3) = Inl (Rejected e))"
  by (simp add: reserve_def atomicFindReady_def execute_ok [OF _ reserve_sproc_none] execute_down)

theorem reserve_without_ready_job_witness:
  "reserve sample_unpack ''workerB'' (store_j1\<lparr>db := []\<rparr>) = (Inr None, store_j1\<lparr>db := []\<rparr>)
   \<and> atomicFindReady sample_unpack ''workerB'' store_a = (Inr None, store_a)
   \<and> fst (reserve sample_unpack ''workerB'' (store_j1\<lparr>link := [Some PROTOCOL_CONNECTION_LOST]\<rparr>))
       = Inl (Rejected PROTOCOL_CONNECTION_LOST)
   \<and> fst (atomicFindReady sample_unpack ''workerB'' (store_a\<lparr>link := [Some PROTOCOL_CONNECTION_LOST]\<rparr>))
       = Inl (Rejected PROTOCOL_CONNECTION_LOST)"
  using reserve_without_ready_job
    [of "store_j1\<lparr>db := []\<rparr>" sample_unpack "''workerB''" store_a sample_unpack
        "store_j1\<lparr>link := [Some PROTOCOL_CONNECTION_LOST]\<rparr>" PROTOCOL_CONNECTION_LOST "[]"
        "store_a\<lparr>link := [Some PROTOCOL_CONNECTION_LOST]\<rparr>"]
  by (simp add: reachable_def store_j1_def store_a_def job_a1_def job_a2_def)


section \<open>Recovery scans\<close>











section \<open>Schema bootstrap\<close>

text \<open>
  Errors of the table statement and of the two procedure statements leave
  \<^verbatim>\<open>initSchema\<close> as they are.
\<close>

lemma bootstrap_errors_propagate:
  "fst (initSchema (blank [Some e])) = Inl (Rejected e)"
  "fst (initSchema (blank [None, None, Some e])) = Inl (Rejected e)"
  "fst (initSchema (blank [None, None, None, Some e])) = Inl (Rejected e)"
  by (simp_all add: initSchema_def install_def blank_def execute_def
      create_table_if_not_exists_def add_index_def drop_procedure_if_exists_def
      create_procedure_def)

lemma any_index_error_is_dropped:
  "fst (initSchema (blank [None, Some e])) = Inr ()"
  by (simp add: initSchema_def install_def blank_def execute_def
      create_table_if_not_exists_def add_index_def drop_procedure_if_exists_def
      create_procedure_def)

text \<open>
  C6 does not hold of the bootstrap: the handler around the index statements is empty
  and drops whatever they raise. Here the \<^verbatim>\<open>ADD INDEX\<close> of \<^verbatim>\<open>initSchema\<close> and the
  second \<^verbatim>\<open>ADD INDEX\<close> of \<^verbatim>\<open>createTable\<close> time out waiting for a lock, which is not
  a duplicate-index error; both calls complete without error, the index missing from
  the catalog.
\<close>

theorem index_error_swallowed:
  "initSchema (blank [None, Some ER_LOCK_WAIT_TIMEOUT]) =
     (Inr (),
      \<lparr>link = [], clock = 0,
       db = \<lparr>has_table = True, indexes = [''PRIMARY'', ''id_UNIQUE''],
             procedures = [''reserve_sproc'']\<rparr>\<rparr>)
   \<and> createTable (blank [None, None, Some ER_LOCK_WAIT_TIMEOUT]) =
     (Inr (),
      \<lparr>link = [], clock = 0,
       db = \<lparr>has_table = True, indexes = [''PRIMARY'', ''id_UNIQUE'', ''status_expires''],
             procedures = [''atomicFindReady'']\<rparr>\<rparr>)"
  by (simp add: initSchema_def createTable_def install_def blank_def execute_def
      create_table_if_not_exists_def add_index_def drop_procedure_if_exists_def
      create_procedure_def)


section \<open>Statements built from partial objects\<close>

lemma join_nonempty:
  "xs \<noteq> [] \<Longrightarrow> \<forall>x\<in>set xs. x \<noteq> [] \<Longrightarrow> join sep xs \<noteq> []"
  by (induction sep xs rule: join.induct) simp_all

lemma set_clause_nonempty: "ks \<noteq> [] \<Longrightarrow> set_clause ks \<noteq> []"
  by (simp add: set_clause_def join_nonempty)

lemma where_clause_nonempty: "ks \<noteq> [] \<Longrightarrow> where_clause ks \<noteq> []"
  by (simp add: where_clause_def join_nonempty)

lemma empty_clauses: "set_clause (keys no_keys) = []" "where_clause (keys no_keys) = []"
  by (simp_all add: set_clause_def where_clause_def keys_def key_def no_keys_def)

lemma keys_empty_iff: "keys q = [] \<longleftrightarrow> q = no_keys"
  by (cases q) (auto simp add: keys_def key_def no_keys_def split: option.splits)

lemma execute_unparsed:
  "\<exists>e. execute (prepared [] stmt) st = (Inl (Rejected e), st\<lparr>link := tl (link st)\<rparr>)"
  by (simp add: execute_def prepared_def split: list.splits option.splits)

lemma execute_unparsed_reachable:
  "reachable st \<Longrightarrow>
   execute (prepared [] stmt) st = (Inl (Rejected ER_PARSE_ERROR), st\<lparr>link := tl (link st)\<rparr>)"
  by (simp add: execute_refused prepared_def)

lemma sql_update_no_match:
  "\<not> list_ex cond tbl \<Longrightarrow> sql_update cond f tbl = Inr (0, tbl)"
proof -
  assume "\<not> list_ex cond tbl"
  then have none: "\<forall>r\<in>set tbl. \<not> cond r" by (simp add: list_ex_iff)
  then have "map (\<lambda>r. if cond r then f r else r) tbl = tbl" by (simp add: map_idI)
  moreover from none have "filter cond tbl = []" by (simp add: filter_empty_conv)
  ultimately show ?thesis by (simp add: sql_update_def)
qed

lemma sql_delete_no_match:
  "\<not> list_ex cond tbl \<Longrightarrow> sql_delete cond tbl = Inr (0, tbl)"
  by (simp add: sql_delete_def list_ex_iff filter_empty_conv filter_id_conv)

text \<open>
  C10. The partial object without keys yields an empty \<^verbatim>\<open>SET\<close> clause and an empty
  \<^verbatim>\<open>WHERE\<close> clause. With it \<^verbatim>\<open>updateById\<close>, \<^verbatim>\<open>get\<close> and \<^verbatim>\<open>remove\<close> end in an error
  on every store and for every id, whether or not a row has that id, and no row is
  read, changed or deleted; on a reachable store the error is the server's parse error.
\<close>

theorem empty_object_never_parses:
  "set_clause (keys no_keys) = [] \<and> where_clause (keys no_keys) = []
   \<and> (\<exists>e. updateById i no_keys st = (Inl (Rejected e), st\<lparr>link := tl (link st)\<rparr>))
   \<and> (\<exists>e. get unpack no_keys st = (Inl (Rejected e), st\<lparr>link := tl (link st)\<rparr>))
   \<and> (\<exists>e. remove no_keys st = (Inl (Rejected e), st\<lparr>link := tl (link st)\<rparr>))
   \<and> (reachable st \<longrightarrow>
        fst (updateById i no_keys st) = Inl (Rejected ER_PARSE_ERROR)
        \<and> fst (get unpack no_keys st) = Inl (Rejected ER_PARSE_ERROR)
        \<and> fst (remove no_keys st) = Inl (Rejected ER_PARSE_ERROR))"
proof -
  have u: "\<exists>e. updateById i no_keys st = (Inl (Rejected e), st\<lparr>link := tl (link st)\<rparr>)"
    using execute_unparsed [of "sql_update (\<lambda>r. id' r = i) (assign no_keys)" st]
    by (auto simp add: updateById_def empty_clauses)
  have g: "\<exists>e. get unpack no_keys st = (Inl (Rejected e), st\<lparr>link := tl (link st)\<rparr>)"
    using execute_unparsed [of "sql_select (matches no_keys)" st]
    by (auto simp add: get_def empty_clauses)
  have r: "\<exists>e. remove no_keys st = (Inl (Rejected e), st\<lparr>link := tl (link st)\<rparr>)"
    using execute_unparsed [of "sql_delete (matches no_keys)" st]
    by (auto simp add: remove_def empty_clauses)
  show ?thesis
    using u g r
    by (simp add: empty_clauses updateById_def get_def remove_def execute_unparsed_reachable)
qed

theorem empty_object_never_parses_witness:
  "updateById ''j1'' no_keys store_j1 = (Inl (Rejected ER_PARSE_ERROR), store_j1)
   \<and> fst (get sample_unpack no_keys store_j1) = Inl (Rejected ER_PARSE_ERROR)
   \<and> fst (remove no_keys store_j1) = Inl (Rejected ER_PARSE_ERROR)
   \<and> list_ex (\<lambda>r. id' r = ''j1'') (db store_j1)"
  using empty_object_never_parses [of "''j1''" store_j1 sample_unpack]
  by (auto simp add: reachable_def store_j1_def job_j1_def)


section \<open>Single-row operations\<close>

text \<open>
  C7, as the code has it. On a reachable store with no row of the given id,
  \<^verbatim>\<open>updateById\<close> called with at least one field throws
  \<^verbatim>\<open>updated 0 jobs instead of 1\<close> and \<^verbatim>\<open>removeById\<close> throws
  \<^verbatim>\<open>deleted 0 jobs instead of 1\<close>, the table unchanged; with exactly one row of the
  id, \<^verbatim>\<open>removeById\<close> deletes it and returns \<^verbatim>\<open>true\<close>.
\<close>

theorem update_and_remove_by_absent_id:
  "(reachable st \<and> \<not> list_ex (\<lambda>r. id' r = i) (db st) \<and> keys vals \<noteq> []
      \<longrightarrow> updateById i vals st =
            (Inl (Thrown ''updated 0 jobs instead of 1''), st\<lparr>link := tl (link st)\<rparr>))
   \<and> (reachable st \<and> \<not> list_ex (\<lambda>r. id' r = i) (db st)
      \<longrightarrow> removeById i st =
            (Inl (Thrown ''deleted 0 jobs instead of 1''), st\<lparr>link := tl (link st)\<rparr>))
   \<and> (reachable st \<and> length (filter (\<lambda>r. id' r = i) (db st)) = 1
      \<longrightarrow> removeById i st =
            (Inr True, st\<lparr>link := tl (link st), db := filter (\<lambda>r. id' r \<noteq> i) (db st)\<rparr>)
          \<and> length (filter (\<lambda>r. id' r \<noteq> i) (db st)) + 1 = length (db st))"
proof (intro conjI impI)
  assume h: "reachable st \<and> \<not> list_ex (\<lambda>r. id' r = i) (db st) \<and> keys vals \<noteq> []"
  then have "prepared (set_clause (keys vals)) (sql_update (\<lambda>r. id' r = i) (assign vals)) (db st)
               = Inr (0, db st)"
    by (simp add: prepared_def set_clause_nonempty sql_update_no_match)
  with h show "updateById i vals st =
      (Inl (Thrown ''updated 0 jobs instead of 1''), st\<lparr>link := tl (link st)\<rparr>)"
    by (simp add: updateById_def execute_ok)
next
  assume h: "reachable st \<and> \<not> list_ex (\<lambda>r. id' r = i) (db st)"
  then show "removeById i st =
      (Inl (Thrown ''deleted 0 jobs instead of 1''), st\<lparr>link := tl (link st)\<rparr>)"
    by (simp add: removeById_def execute_ok [OF _ sql_delete_no_match])
next
  assume h: "reachable st \<and> length (filter (\<lambda>r. id' r = i) (db st)) = 1"
  then show "removeById i st =
      (Inr True, st\<lparr>link := tl (link st), db := filter (\<lambda>r. id' r \<noteq> i) (db st)\<rparr>)"
    by (simp add: removeById_def execute_ok [where res = 1] sql_delete_def)
next
  assume h: "reachable st \<and> length (filter (\<lambda>r. id' r = i) (db st)) = 1"
  have "length (filter (\<lambda>r. id' r = i) (db st)) + length (filter (\<lambda>r. id' r \<noteq> i) (db st))
          = length (db st)"
    using sum_length_filter_compl [of "\<lambda>r. id' r = i" "db st"] by simp
  with h show "length (filter (\<lambda>r. id' r \<noteq> i) (db st)) + 1 = length (db st)" by simp
qed

theorem update_and_remove_by_absent_id_witness:
  "updateById ''j9'' (only_status Done) store_j1 =
      (Inl (Thrown ''updated 0 jobs instead of 1''), store_j1)
   \<and> removeById ''j9'' store_j1 = (Inl (Thrown ''deleted 0 jobs instead of 1''), store_j1)
   \<and> removeById ''j1'' store_j1 = (Inr True, store_j1\<lparr>db := []\<rparr>)"
  using update_and_remove_by_absent_id [of store_j1 "''j9''" "only_status Done"]
    update_and_remove_by_absent_id [of store_j1 "''j1''" "only_status Done"]
  by (simp add: reachable_def store_j1_def job_j1_def only_status_def no_keys_def keys_def key_def)

text \<open>
  C7 as stated fails for the partial object without fields: with no row of id \<open>j9\<close>
  in the store, \<^verbatim>\<open>updateById("j9", {})\<close> ends in the server's parse error, not in
  \<^verbatim>\<open>updated 0 jobs instead of 1\<close>.
\<close>

theorem update_without_fields_is_parse_error:
  "updateById ''j9'' no_keys store_j1 = (Inl (Rejected ER_PARSE_ERROR), store_j1)
   \<and> fst (updateById ''j9'' no_keys store_j1) \<noteq> Inl (Thrown ''updated 0 jobs instead of 1'')"
  by (simp add: updateById_def execute_def prepared_def set_clause_def keys_def key_def
      no_keys_def store_j1_def)


section \<open>Bulk deletes\<close>

text \<open>
  C9, as the code has it. On a reachable store, \<^verbatim>\<open>remove\<close> with a filter of at least
  one field, \<^verbatim>\<open>removeByStatus\<close> and \<^verbatim>\<open>clear\<close> return the number of rows they delete,
  and that many rows are gone from the table; in particular
  \<^verbatim>\<open>removeByStatus('done')\<close> with no \<^verbatim>\<open>done\<close> row returns 0 and leaves the table
  as it is.
\<close>

theorem bulk_deletes_return_count:
  "(reachable st \<and> keys query \<noteq> []
      \<longrightarrow> remove query st =
            (Inr (length (filter (matches query) (db st))),
             st\<lparr>link := tl (link st), db := filter (\<lambda>r. \<not> matches query r) (db st)\<rparr>)
          \<and> length (filter (\<lambda>r. \<not> matches query r) (db st))
              + length (filter (matches query) (db st)) = length (db st))
   \<and> (reachable st \<longrightarrow> clear st = (Inr (length (db st)), st\<lparr>link := tl (link st), db := []\<rparr>))
   \<and> (reachable st1
      \<longrightarrow> removeByStatus s st1 =
            (Inr (length (filter (\<lambda>r. status r = s) (db st1))),
             st1\<lparr>link := tl (link st1), db := filter (\<lambda>r. status r \<noteq> s) (db st1)\<rparr>)
          \<and> length (filter (\<lambda>r. status r \<noteq> s) (db st1))
              + length (filter (\<lambda>r. status r = s) (db st1)) = length (db st1))
   \<and> (reachable st1 \<and> \<not> list_ex (\<lambda>r. status r = Done) (db st1)
      \<longrightarrow> removeByStatus Done st1 = (Inr 0, st1\<lparr>link := tl (link st1)\<rparr>))"
proof (intro conjI impI)
  assume h: "reachable st \<and> keys query \<noteq> []"
  then show "remove query st =
            (Inr (length (filter (matches query) (db st))),
             st\<lparr>link := tl (link st), db := filter (\<lambda>r. \<not> matches query r) (db st)\<rparr>)"
    by (simp add: remove_def prepared_def where_clause_nonempty sql_delete_def
        execute_ok [where res = "length (filter (matches query) (db st))"])
next
  show "length (filter (\<lambda>r. \<not> matches query r) (db st))
          + length (filter (matches query) (db st)) = length (db st)"
    using sum_length_filter_compl [of "matches query" "db st"] by simp
next
  assume "reachable st"
  then show "clear st = (Inr (length (db st)), st\<lparr>link := tl (link st), db := []\<rparr>)"
    by (simp add: clear_def sql_delete_def execute_ok [where res = "length (db st)"])
next
  assume "reachable st1"
  then show "removeByStatus s st1 =
            (Inr (length (filter (\<lambda>r. status r = s) (db st1))),
             st1\<lparr>link := tl (link st1), db := filter (\<lambda>r. status r \<noteq> s) (db st1)\<rparr>)"
    by (simp add: removeByStatus_def sql_delete_def
        execute_ok [where res = "length (filter (\<lambda>r. status r = s) (db st1))"])
next
  show "length (filter (\<lambda>r. status r \<noteq> s) (db st1))
          + length (filter (\<lambda>r. status r = s) (db st1)) = length (db st1)"
    using sum_length_filter_compl [of "\<lambda>r. status r = s" "db st1"] by simp
next
  assume "reachable st1 \<and> \<not> list_ex (\<lambda>r. status r = Done) (db st1)"
  then show "removeByStatus Done st1 = (Inr 0, st1\<lparr>link := tl (link st1)\<rparr>)"
    by (simp add: removeByStatus_def execute_ok [OF _ sql_delete_no_match])
qed

theorem bulk_deletes_return_count_witness:
  "remove (only_status Done) store_j1 = (Inr 0, store_j1)
   \<and> remove (only_status Ready) store_j1 = (Inr 1, store_j1\<lparr>db := []\<rparr>)
   \<and> clear store_j1 = (Inr 1, store_j1\<lparr>db := []\<rparr>)
   \<and> clear (store_j1\<lparr>db := []\<rparr>) = (Inr 0, store_j1\<lparr>db := []\<rparr>)
   \<and> removeByStatus Processing store_a = (Inr 2, store_a\<lparr>db := []\<rparr>)
   \<and> removeByStatus Done store_a = (Inr 0, store_a)"
  using bulk_deletes_return_count [of store_j1 "only_status Done" store_a Processing]
    bulk_deletes_return_count [of store_j1 "only_status Ready" store_a Done]
    bulk_deletes_return_count [of "store_j1\<lparr>db := []\<rparr>" "only_status Ready" store_a Done]
  by (simp add: reachable_def store_j1_def job_j1_def store_a_def job_a1_def job_a2_def
      only_status_def no_keys_def keys_def key_def matches_def eq_col_def eq_null_col_def)

text \<open>
  C9 as stated fails for the filter without fields: \<^verbatim>\<open>remove({})\<close> ends in the
  server's parse error instead of a count, on a table with a row and on the empty
  table alike.
\<close>

theorem remove_without_filter_is_parse_error:
  "remove no_keys store_j1 = (Inl (Rejected ER_PARSE_ERROR), store_j1)
   \<and> remove no_keys (store_j1\<lparr>db := []\<rparr>) =
       (Inl (Rejected ER_PARSE_ERROR), store_j1\<lparr>db := []\<rparr>)"
  by (simp add: remove_def execute_def prepared_def where_clause_def keys_def key_def
      no_keys_def store_j1_def)

section \<open>Insert and read back\<close>

lemma sample_codec_round_trip: "sample_unpack (sample_pack v) = v"
proof (cases v)
  case (JOther n)
  then show ?thesis by (cases n) (simp_all add: sample_unpack_def)
qed (simp_all add: sample_unpack_def)

lemma datetime_whole_second: "t mod 1000 = 0 \<Longrightarrow> datetime t = t"
proof -
  assume "t mod 1000 = 0"
  then obtain k where k: "t = 1000 * k" by (auto elim: dvdE)
  have "(500 + 1000 * k) div 1000 = k" by simp
  then show ?thesis by (simp add: datetime_def k add.commute)
qed

lemma datetime_whole_option: "whole_second v \<Longrightarrow> map_option datetime v = v"
  by (cases v) (simp_all add: whole_second_def datetime_whole_second)

lemma add_succeeded:
  assumes "add pack j st = (Inr (), st')"
  shows "db st' = db st @ [stored (map_data (\<lambda>val. Some (pack val)) j)]"
    and "\<not> list_ex (\<lambda>x. id' x = id' j) (db st)"
    and "column_error (map_data (\<lambda>val. Some (pack val)) j) = None"
  using assms
  by (auto simp add: add_def execute_def sql_insert_def map_data_def
      split: list.splits option.splits if_splits)

lemma add_fresh:
  "reachable st \<Longrightarrow> column_error (map_data (\<lambda>val. Some (pack val)) j) = None
     \<Longrightarrow> \<not> list_ex (\<lambda>x. id' x = id' j) (db st)
     \<Longrightarrow> add pack j st =
           (Inr (), st\<lparr>link := tl (link st),
                       db := db st @ [stored (map_data (\<lambda>val. Some (pack val)) j)]\<rparr>)"
  by (simp add: add_def sql_insert_def map_data_def
      execute_ok [where res = 1
        and d = "db st @ [stored (map_data (\<lambda>val. Some (pack val)) j)]"])

lemma add_duplicate:
  "reachable st \<Longrightarrow> column_error (map_data (\<lambda>val. Some (pack val)) j) = None
     \<Longrightarrow> list_ex (\<lambda>x. id' x = id' j) (db st)
     \<Longrightarrow> add pack j st = (Inl (Rejected ER_DUP_ENTRY), st\<lparr>link := tl (link st)\<rparr>)"
  by (simp add: add_def sql_insert_def map_data_def execute_refused)

lemma fromMysql_stored_packed:
  "fromMysql unpack (stored (map_data (\<lambda>val. Some (pack val)) j)) =
     j\<lparr>created := datetime (created j), expires := map_option datetime (expires j),
       stalls := map_option datetime (stalls j),
       data := (if pack (data j) = [] then JString [] else unpack (pack (data j)))\<rparr>"
  by (simp add: fromMysql_def map_data_def stored_def)

lemma getById_after_add:
  assumes "add pack j st = (Inr (), st')" and "reachable st'"
  shows "fst (getById unpack (id' j) st') =
           Inr (Some (fromMysql unpack (stored (map_data (\<lambda>val. Some (pack val)) j))))"
proof -
  let ?row = "stored (map_data (\<lambda>val. Some (pack val)) j)"
  have tbl: "db st' = db st @ [?row]" and fresh: "\<not> list_ex (\<lambda>x. id' x = id' j) (db st)"
    using add_succeeded [OF assms(1)] by simp_all
  from fresh have "filter (\<lambda>r. id' r = id' j) (db st) = []"
    by (simp add: list_ex_iff filter_empty_conv)
  then have "sql_select (\<lambda>r. id' r = id' j) (db st') = Inr ([?row], db st')"
    by (simp add: sql_select_def tbl map_data_def stored_def)
  then show ?thesis
    by (simp add: getById_def execute_ok [OF assms(2)])
qed

text \<open>
  C8, as the code has it. Let \<^verbatim>\<open>add(j)\<close> succeed and the store be reachable for the
  read. Then \<^verbatim>\<open>getById(j.id)\<close> returns \<open>j\<close> as the table holds it and \<^verbatim>\<open>fromMysql\<close>
  hands it out: \<^verbatim>\<open>created\<close>, \<^verbatim>\<open>expires\<close> and \<^verbatim>\<open>stalls\<close> rounded to the whole second
  by their \<^verbatim>\<open>DATETIME\<close> columns, the payload packed and unpacked again (a payload
  packed to the empty string comes back as that string, since \<^verbatim>\<open>fromMysql\<close> decodes
  truthy values only), every other field as in \<open>j\<close>. So the record returned is \<open>j\<close>
  itself when the timestamps of \<open>j\<close> are whole seconds and the codec packs the payload
  to a non-empty string that it unpacks to the payload.
\<close>

theorem add_then_getById:
  assumes "add pack j st = (Inr (), st')" and "reachable st'"
  shows "fst (getById unpack (id' j) st') =
           Inr (Some (j\<lparr>created := datetime (created j),
                        expires := map_option datetime (expires j),
                        stalls := map_option datetime (stalls j),
                        data := (if pack (data j) = [] then JString []
                                 else unpack (pack (data j)))\<rparr>))
       \<and> (created j mod 1000 = 0 \<and> whole_second (expires j) \<and> whole_second (stalls j)
            \<and> pack (data j) \<noteq> [] \<and> unpack (pack (data j)) = data j
          \<longrightarrow> fst (getById unpack (id' j) st') = Inr (Some j))"
  by (simp add: getById_after_add [OF assms] fromMysql_stored_packed
      datetime_whole_second datetime_whole_option)

theorem add_then_getById_witness:
  "fst (getById sample_unpack ''j2''
          (snd (add sample_pack (job_j2\<lparr>created := 2000\<rparr>) store_j1)))
     = Inr (Some (job_j2\<lparr>created := 2000\<rparr>))"
proof -
  have a: "add sample_pack (job_j2\<lparr>created := 2000\<rparr>) store_j1 =
      (Inr (), snd (add sample_pack (job_j2\<lparr>created := 2000\<rparr>) store_j1))"
    by (simp add: add_def execute_def sql_insert_def store_j1_def job_j1_def job_j2_def
        map_data_def column_error_def text_column_def datetime_column_def int_column_def
        datetime_def stored_def)
  have r: "reachable (snd (add sample_pack (job_j2\<lparr>created := 2000\<rparr>) store_j1))"
    by (simp add: add_def execute_def sql_insert_def store_j1_def job_j1_def job_j2_def
        map_data_def column_error_def text_column_def datetime_column_def int_column_def
        datetime_def stored_def reachable_def)
  show ?thesis
    using add_then_getById [OF a r, of sample_unpack]
    by (simp add: job_j2_def sample_unpack_def whole_second_def datetime_def)
qed

text \<open>
  C8 as stated fails on the timestamps. The job \<open>j2\<close> was created 100 milliseconds
  into a second; \<^verbatim>\<open>add\<close> succeeds, the \<^verbatim>\<open>DATETIME\<close> column keeps the whole second,
  and \<^verbatim>\<open>getById("j2")\<close> returns \<^verbatim>\<open>created\<close> as 0, not 100. The payload, a string,
  comes back as it went in.
\<close>

theorem created_comes_back_rounded:
  "fst (add sample_pack job_j2 store_j1) = Inr ()
   \<and> fst (getById sample_unpack ''j2'' (snd (add sample_pack job_j2 store_j1)))
       = Inr (Some (job_j2\<lparr>created := 0\<rparr>))
   \<and> created job_j2 = 100
   \<and> data job_j2 = JString ''payload''"
  by (simp add: add_def getById_def execute_def sql_insert_def sql_select_def store_j1_def
      job_j1_def job_j2_def map_data_def fromMysql_def sample_unpack_def
      column_error_def text_column_def datetime_column_def int_column_def
      datetime_def stored_def)

text \<open>The same holds whatever the codec is.\<close>

lemma created_rounded_for_every_codec:
  assumes "add pack (j\<lparr>created := 100\<rparr>) st = (Inr (), st')" and "reachable st'"
  shows "\<exists>j'. fst (getById unpack (id' j) st') = Inr (Some j') \<and> created j' = 0"
  using getById_after_add [OF assms, of unpack]
  by (simp add: fromMysql_def map_data_def stored_def datetime_def)


section \<open>Reservations one after the other, and at the same time\<close>

text \<open>
  With \<open>j1\<close> the only job, a second reservation made after the first has returned
  finds no ready row.
\<close>

lemma reserve_twice:
  "fst (reserve sample_unpack ''workerB''
          (snd (reserve sample_unpack ''workerA'' store_j1))) = Inr None"
  by (simp add: reserve_def execute_def reserve_sproc_def store_j1_def job_j1_def Let_def)

text \<open>
  The three statements, run for one call without another call in between, are the
  procedure, and \<^verbatim>\<open>reserve\<close> on a reachable store is such a run.
\<close>

lemma three_statements_are_the_procedure:
  "reserve_sproc tbl =
     Inr (result_set (snd (run [(0, Select_into), (0, Update_if), (0, Select_row)]
                            (tbl, [idle])) ! 0),
          fst (run [(0, Select_into), (0, Update_if), (0, Select_row)] (tbl, [idle])))"
  by (cases "find (\<lambda>r. status r = Ready) tbl")
     (simp_all add: reserve_sproc_def idle_def Let_def)

lemma reserve_is_one_uninterrupted_call:
  assumes "reachable st"
  shows "reserve unpack w st =
           (Inr (reserved unpack
                   (snd (run [(0, Select_into), (0, Update_if), (0, Select_row)]
                          (db st, [idle])) ! 0)),
            st\<lparr>link := tl (link st),
               db := fst (run [(0, Select_into), (0, Update_if), (0, Select_row)]
                           (db st, [idle]))\<rparr>)"
  by (simp add: reserve_def reserved_def
      execute_ok [OF assms three_statements_are_the_procedure]
      split: list.splits)

text \<open>
  Calls that run one after the other never hand out the same job twice: once
  \<^verbatim>\<open>reserve\<close> has returned a job, the next \<^verbatim>\<open>reserve\<close> on the store it left returns
  another id, or nothing.
\<close>

lemma reserve_some:
  assumes "reserve unpack w st = (Inr (Some j), st')"
  shows "\<exists>r. find (\<lambda>r. status r = Ready) (db st) = Some r \<and> id' j = id' r
           \<and> db st' = map (\<lambda>x. if id' x = id' r then x\<lparr>status := Processing\<rparr> else x) (db st)"
proof (cases "find (\<lambda>r. status r = Ready) (db st)")
  case None
  with assms show ?thesis
    by (auto simp add: reserve_def execute_def reserve_sproc_def
        split: list.splits option.splits)
next
  case (Some r)
  let ?tbl = "map (\<lambda>x. if id' x = id' r then x\<lparr>status := Processing\<rparr> else x) (db st)"
  from assms Some obtain row others where
    sel: "filter (\<lambda>x. id' x = id' r) ?tbl = row # others"
    and j: "j = fromMysql unpack row" and st': "db st' = ?tbl"
    by (auto simp add: reserve_def execute_def reserve_sproc_def Let_def
        split: list.splits option.splits)
  from sel have "row \<in> set (filter (\<lambda>x. id' x = id' r) ?tbl)" by simp
  then have "id' row = id' r" by simp
  with j st' Some show ?thesis by (simp add: fromMysql_columns)
qed

lemma reserve_not_again:
  assumes "reserve unpack w st = (Inr (Some j), st')"
    and "fst (reserve unpack' w' st') = Inr (Some j')"
  shows "id' j' \<noteq> id' j"
proof -
  from reserve_some [OF assms(1)] obtain r :: "string option job_retries" where
    r: "id' j = id' r"
    "db st' = map (\<lambda>x. if id' x = id' r then x\<lparr>status := Processing\<rparr> else x) (db st)"
    by blast
  obtain st'' where "reserve unpack' w' st' = (Inr (Some j'), st'')"
    using assms(2) by (cases "reserve unpack' w' st'") simp
  from reserve_some [OF this] obtain r' :: "string option job_retries" where
    r': "find (\<lambda>r. status r = Ready) (db st') = Some r'" "id' j' = id' r'"
    by blast
  from r'(1) have "r' \<in> set (db st')" "status r' = Ready"
    by (auto simp add: find_Some_iff)
  with r(2) have "id' r' \<noteq> id' r" by auto
  with r(1) r'(2) show ?thesis by simp
qed

text \<open>
  C1 does not hold of the procedure once two calls overlap. The table holds the one
  ready job \<open>j1\<close>; under the schedule \<open>racing\<close> both calls read \<open>j1\<close> into their
  \<^verbatim>\<open>@j_id\<close> before either updates it, each then sets the status of \<open>j1\<close> and selects
  it, and \<^verbatim>\<open>reserve\<close> returns \<open>j1\<close> to both callers, where the claim has one of them
  receive \<^verbatim>\<open>null\<close>.
\<close>

theorem concurrent_calls_take_the_same_job:
  "run racing ([job_j1], [idle, idle]) =
     ([job_j1\<lparr>status := Processing\<rparr>],
      [\<lparr>at_j_id = Some ''j1'', result_set = [job_j1\<lparr>status := Processing\<rparr>]\<rparr>,
       \<lparr>at_j_id = Some ''j1'', result_set = [job_j1\<lparr>status := Processing\<rparr>]\<rparr>])
   \<and> map (reserved sample_unpack) (snd (run racing ([job_j1], [idle, idle]))) =
       [Some \<lparr>id' = ''j1'', workerid = None, name = None, created = 0, expires = None,
               expirems = Some 5000, stalls = None, stallms = Some 60000,
               status = Processing, data = JString ''payload'', retryx = 0, retries = 0\<rparr>,
        Some \<lparr>id' = ''j1'', workerid = None, name = None, created = 0, expires = None,
               expirems = Some 5000, stalls = None, stallms = Some 60000,
               status = Processing, data = JString ''payload'', retryx = 0, retries = 0\<rparr>]"
  by (simp add: racing_def idle_def job_j1_def reserved_def fromMysql_def map_data_def
      sample_unpack_def)

end
